theory Spec2Isabelle
  imports Complex_Main
begin

section \<open>Choropleth overlay generator\<close>

text \<open>
  The notebook \<^verbatim>\<open>choropleth_overlay_generator.ipynb\<close> is a linear script of five code
  cells: imports, settings and data loading, the helper \<^verbatim>\<open>export_legend\<close>, the plotting
  cell that saves the legend and the texture, and a reporting cell that prints the numbers
  needed to place the texture in Unreal Engine.

  The embedding keeps the notebook's own control flow, constants and arithmetic. Calls into
  geopandas and matplotlib whose results the notebook cannot determine itself (reading the
  file, laying out the plot, measuring the legend, rescaling the axes, writing an image
  file) are parameters of the model, collected in the record \<open>lib\<close>; each call that can
  raise has an error alternative. Numbers are real numbers: matplotlib's limits are
  IEEE doubles, and their rounding is outside the model.
\<close>

subsection \<open>Python values\<close>

datatype py_error =
    KeyError string
  | AttributeError string
  | ValueError string
  | OSError string
  | Exception string

text \<open>A line written by \<^verbatim>\<open>print\<close>: a plain message, or \<^verbatim>\<open>'label: %s' % number\<close>.\<close>

datatype out_line = Msg string | Fmt string real

subsection \<open>Settings (cell 2 and the head of cell 4)\<close>

record config =
  data_path :: string
  legend_label_lookup :: "string \<rightharpoonup> string"
  column_to_plot :: string
  legend_filename :: string
  texture_filename :: string
  ue_world_origin_bng_eastings :: real
  ue_world_origin_bng_northings :: real
  width_inches :: real
  height_inches :: real
  dpi :: real

definition notebook_config :: config where
  "notebook_config =
     \<lparr>data_path = ''sample_data/FourLADs_2011LOAC.gpkg'',
      legend_label_lookup = map_of
        [(''A'', ''Intermediate Lifestyles''),
         (''B'', ''High Density and High Rise Flats''),
         (''C'', ''Settled Asians''),
         (''D'', ''Urban Elites''),
         (''E'', ''City Vibe''),
         (''F'', ''London Life-Cycle''),
         (''G'', ''Multi-Ethnic Suburbs''),
         (''H'', ''Ageing City Fringe'')],
      column_to_plot = ''Super'',
      legend_filename = ''images/FourLADs_LOAC_legend.png'',
      texture_filename = ''images/FourLADs_LOAC_texture.png'',
      ue_world_origin_bng_eastings = 532816,
      ue_world_origin_bng_northings = 180759,
      width_inches = 12.8,
      height_inches = 9.6,
      dpi = 600\<rparr>"

subsection \<open>The figure\<close>

text \<open>
  A bounding box is \<open>(x0, y0, x1, y1)\<close>, the order of matplotlib's \<^verbatim>\<open>Bbox.extents\<close>.
  The notebook has one figure with one axes; the record holds what the notebook reads or
  sets on them. \<open>subplotpars\<close> is \<open>(left, right, bottom, top, wspace, hspace)\<close>, or
  \<open>None\<close> for matplotlib's defaults. \<open>get_xlim\<close> and \<open>get_ylim\<close> are pairs \<open>(low, high)\<close>, as
  \<^verbatim>\<open>ax.get_xlim()\<close> returns them. \<open>get_legend\<close> holds the label texts of the axes' legend
  in legend order, or \<open>None\<close> when the axes have no legend. \<open>canvas_texts\<close> holds the
  label texts as they stood at the last \<^verbatim>\<open>fig.canvas.draw()\<close>.
\<close>

type_synonym extents = "real \<times> real \<times> real \<times> real"

record figure =
  figsize :: "real \<times> real"
  fig_dpi :: real
  get_legend :: "string list option"
  canvas_texts :: "string list option"
  get_xlim :: "real \<times> real"
  get_ylim :: "real \<times> real"
  scaled :: bool
  xticks :: "real list option"
  yticks :: "real list option"
  axison :: bool
  subplotpars :: "(real \<times> real \<times> real \<times> real \<times> real \<times> real) option"

subsection \<open>Data, files and the library\<close>

text \<open>
  A GeoDataFrame: the identifier of its coordinate reference system (\<open>None\<close> when the
  dataset has none) and its features, each a row of named attribute values. The notebook
  itself reads only \<open>crs\<close>; the features are handed to geopandas.
\<close>

record geodataframe =
  crs :: "string option"
  features :: "(string \<times> string) list list"

text \<open>
  What \<^verbatim>\<open>gdf.plot(column_to_plot, ax=ax, categorical=True, legend=True, ...)\<close> leaves on
  the axes: the legend's label texts (if a legend was made) and the data limits.
\<close>

record plotted =
  plot_legend :: "string list option"
  plot_xlim :: "real \<times> real"
  plot_ylim :: "real \<times> real"

text \<open>
  The argument \<^verbatim>\<open>bbox_inches\<close> of \<^verbatim>\<open>savefig\<close>: the string \<^verbatim>\<open>'tight'\<close> together with
  \<^verbatim>\<open>pad_inches\<close>, or a bounding box in inches.
\<close>

datatype bbox_inches = Tight real | Bbox extents

text \<open>
  The library calls whose results are not determined by the notebook:
  \<^item> \<open>read_file\<close>: \<^verbatim>\<open>gpd.read_file(data_path)\<close>, which may raise;
  \<^item> \<open>rc_figure_dpi\<close>: the resolution \<^verbatim>\<open>plt.figure\<close> gives a new figure (\<^verbatim>\<open>fig.dpi\<close>);
  \<^item> \<open>gdf_plot\<close>: \<^verbatim>\<open>gdf.plot\<close> with the notebook's fixed keyword arguments, which may raise;
  \<^item> \<open>get_window_extent\<close>: \<^verbatim>\<open>legend.get_window_extent()\<close>, the legend's bounding box in
    canvas pixels, for the figure as it stands at the call;
  \<^item> \<open>axis_scaled\<close>: the limits \<^verbatim>\<open>ax.axis('scaled')\<close> leaves on the axes;
  \<^item> \<open>savefig_error\<close>: the exception, if any, that \<^verbatim>\<open>savefig\<close> raises for a file name,
    a resolution, a \<^verbatim>\<open>bbox_inches\<close> and the figure to save (a directory that does not
    exist, a path that cannot be written), or \<open>None\<close> when the file is written.
\<close>

record lib =
  read_file :: "string \<Rightarrow> py_error + geodataframe"
  rc_figure_dpi :: real
  gdf_plot :: "geodataframe \<Rightarrow> string \<Rightarrow> figure \<Rightarrow> py_error + plotted"
  get_window_extent :: "figure \<Rightarrow> extents"
  axis_scaled :: "figure \<Rightarrow> (real \<times> real) \<times> (real \<times> real)"
  savefig_error :: "string \<Rightarrow> real \<Rightarrow> bbox_inches \<Rightarrow> figure \<Rightarrow> py_error option"

text \<open>
  A saved file records the arguments of the \<^verbatim>\<open>savefig\<close> call that wrote it and the
  figure as it stood then.
\<close>

record saved =
  path :: string
  save_dpi :: real
  region :: bbox_inches
  shown :: figure

text \<open>The state the plotting code works on: the figure and the files written so far.\<close>

record session =
  fig :: figure
  files :: "saved list"

datatype outcome = Raised py_error session | Done session

text \<open>
  \<^verbatim>\<open>fig.savefig\<close> and \<^verbatim>\<open>plt.savefig\<close>: when the library raises, nothing is written and
  the exception leaves the cell; otherwise the file is added. Saving leaves the figure as
  it is: the limits that cell 5 reads are those the axes had at the save.
\<close>

definition savefig :: "lib \<Rightarrow> string \<Rightarrow> real \<Rightarrow> bbox_inches \<Rightarrow> session \<Rightarrow> outcome" where
  "savefig L fname d bb s =
     (case savefig_error L fname d bb (fig s) of
        Some e \<Rightarrow> Raised e s
      | None \<Rightarrow>
          Done (s\<lparr>files := files s @
                  [\<lparr>path = fname, save_dpi = d, region = bb, shown = fig s\<rparr>]\<rparr>))"

subsection \<open>Cell 2: loading and the CRS check\<close>

definition crs_warning :: string where
  "crs_warning = ''Check your coordinate reference system. This notebook was developed using EPSG:27700 and it may not work correctly with other coordinate reference systems.''"

definition cell2 :: "lib \<Rightarrow> config \<Rightarrow> py_error + geodataframe \<times> out_line list" where
  "cell2 L cfg =
     (case read_file L (data_path cfg) of
        Inl e \<Rightarrow> Inl e
      | Inr gdf \<Rightarrow>
          Inr (gdf, if crs gdf \<noteq> Some ''EPSG:27700'' then [Msg crs_warning] else []))"

subsection \<open>Cell 3: \<^verbatim>\<open>export_legend\<close>\<close>

text \<open>
  The loop \<^verbatim>\<open>for label in legend.get_texts(): label.set_text(legend_label_dict[label.get_text()])\<close>.
  It returns the label texts as the loop leaves them; a missing key raises \<^verbatim>\<open>KeyError\<close>
  at that label, with the labels before it already replaced.
\<close>

fun set_texts :: "(string \<rightharpoonup> string) \<Rightarrow> string list \<Rightarrow> py_error option \<times> string list" where
  "set_texts d [] = (None, [])"
| "set_texts d (t # ts) =
     (case d t of
        None \<Rightarrow> (Some (KeyError t), t # ts)
      | Some v \<Rightarrow> (case set_texts d ts of (e, ts') \<Rightarrow> (e, v # ts')))"

text \<open>
  \<^verbatim>\<open>bbox.extents + np.array(expand)\<close> followed by \<^verbatim>\<open>bbox.from_extents(*...)\<close>: numpy adds
  four numbers elementwise, broadcasts a single number, and raises on any other length.
\<close>

fun add_expand :: "extents \<Rightarrow> real list \<Rightarrow> py_error + extents" where
  "add_expand (x0, y0, x1, y1) [a, b, c, d] = Inr (x0 + a, y0 + b, x1 + c, y1 + d)"
| "add_expand (x0, y0, x1, y1) [a] = Inr (x0 + a, y0 + a, x1 + a, y1 + a)"
| "add_expand (x0, y0, x1, y1) xs = Inl (ValueError ''operands could not be broadcast together'')"

definition expand_default :: "real list" where
  "expand_default = [- 5, - 5, 5, 5]"

text \<open>
  \<^verbatim>\<open>bbox.transformed(fig.dpi_scale_trans.inverted())\<close>: \<^verbatim>\<open>dpi_scale_trans\<close> scales inches to
  pixels by \<^verbatim>\<open>fig.dpi\<close>, its inverse divides by it. The resolution of a figure is positive.
\<close>

definition dpi_scale_inverted :: "figure \<Rightarrow> extents \<Rightarrow> extents" where
  "dpi_scale_inverted f b =
     (case b of (x0, y0, x1, y1) \<Rightarrow>
        (x0 / fig_dpi f, y0 / fig_dpi f, x1 / fig_dpi f, y1 / fig_dpi f))"

definition canvas_draw :: "figure \<Rightarrow> figure" where
  "canvas_draw f = f\<lparr>canvas_texts := get_legend f\<rparr>"

text \<open>
  The argument \<^verbatim>\<open>legend\<close> is a reference to the legend of the session's figure
  (\<^verbatim>\<open>legend.figure\<close> is that figure), so the model reads it from the session; \<^verbatim>\<open>None\<close>
  has no attribute \<^verbatim>\<open>figure\<close>.
\<close>

definition export_legend ::
  "lib \<Rightarrow> string \<Rightarrow> (string \<rightharpoonup> string) option \<Rightarrow> real list \<Rightarrow> session \<Rightarrow> outcome" where
  "export_legend L filename legend_label_dict expand s =
     (case get_legend (fig s) of
        None \<Rightarrow> Raised (AttributeError ''figure'') s
      | Some ts \<Rightarrow>
          (case (case legend_label_dict of None \<Rightarrow> (None, ts) | Some d \<Rightarrow> set_texts d ts) of
             (err, ts') \<Rightarrow>
               let s' = s\<lparr>fig := (canvas_draw (fig s))\<lparr>get_legend := Some ts'\<rparr>\<rparr> in
               (case err of
                  Some e \<Rightarrow> Raised e s'
                | None \<Rightarrow>
                    (case add_expand (get_window_extent L (fig s')) expand of
                       Inl e \<Rightarrow> Raised e s'
                     | Inr bbox \<Rightarrow>
                         savefig L filename 600 (Bbox (dpi_scale_inverted (fig s') bbox)) s'))))"

subsection \<open>Cell 4: plotting, the legend file and the texture file\<close>

definition new_figure :: "lib \<Rightarrow> real \<times> real \<Rightarrow> figure" where
  "new_figure L sz =
     \<lparr>figsize = sz, fig_dpi = rc_figure_dpi L, get_legend = None, canvas_texts = None,
      get_xlim = (0, 1), get_ylim = (0, 1), scaled = False, xticks = None, yticks = None,
      axison = True, subplotpars = None\<rparr>"

text \<open>
  After \<^verbatim>\<open>export_legend\<close> has returned, \<^verbatim>\<open>legend\<close> is not \<^verbatim>\<open>None\<close>, so
  \<^verbatim>\<open>legend.remove()\<close> cannot raise. The locals \<^verbatim>\<open>xlim\<close> and \<^verbatim>\<open>ylim\<close> are never read.
\<close>

definition strip_axes :: "lib \<Rightarrow> figure \<Rightarrow> figure" where
  "strip_axes L f =
     (let f1 = f\<lparr>get_legend := None\<rparr>;
          f2 = f1\<lparr>scaled := True, get_xlim := fst (axis_scaled L f1),
                  get_ylim := snd (axis_scaled L f1)\<rparr>
      in f2\<lparr>xticks := Some [], yticks := Some [], axison := False,
             subplotpars := Some (0, 1, 0, 1, 0, 0)\<rparr>)"

definition cell4 :: "lib \<Rightarrow> config \<Rightarrow> geodataframe \<Rightarrow> outcome" where
  "cell4 L cfg gdf =
     (let f0 = new_figure L (width_inches cfg, height_inches cfg) in
      case gdf_plot L gdf (column_to_plot cfg) f0 of
        Inl e \<Rightarrow> Raised e \<lparr>fig = f0, files = []\<rparr>
      | Inr p \<Rightarrow>
          (case export_legend L (legend_filename cfg) (Some (legend_label_lookup cfg)) expand_default
                  \<lparr>fig = f0\<lparr>get_legend := plot_legend p, get_xlim := plot_xlim p,
                             get_ylim := plot_ylim p\<rparr>,
                   files = []\<rparr> of
             Raised e s \<Rightarrow> Raised e s
           | Done s \<Rightarrow>
               savefig L (texture_filename cfg) (dpi cfg) (Tight 0)
                 (s\<lparr>fig := strip_axes L (fig s)\<rparr>)))"

subsection \<open>Cell 5: the geo-registration report\<close>

text \<open>The four expressions of the last four \<^verbatim>\<open>print\<close> statements, in source order.\<close>

definition eastings_offset_cm :: "config \<Rightarrow> figure \<Rightarrow> real" where
  "eastings_offset_cm cfg f = - 100 * (ue_world_origin_bng_eastings cfg - fst (get_xlim f))"

definition northings_offset_cm :: "config \<Rightarrow> figure \<Rightarrow> real" where
  "northings_offset_cm cfg f = 100 * (ue_world_origin_bng_northings cfg - fst (get_ylim f))"

definition texture_width_cm :: "figure \<Rightarrow> real" where
  "texture_width_cm f = 100 * (snd (get_xlim f) - fst (get_xlim f))"

definition texture_height_cm :: "figure \<Rightarrow> real" where
  "texture_height_cm f = 100 * (snd (get_ylim f) - fst (get_ylim f))"

definition cell5 :: "config \<Rightarrow> figure \<Rightarrow> out_line list" where
  "cell5 cfg f =
     [Msg ''The following information is needed to build the overlay texture in unreal:'',
      Fmt ''LL eastings offset: '' (fst (get_xlim f)),
      Fmt ''LL northings offset: '' (fst (get_ylim f)),
      Fmt ''Eastings world origin to texture start (cm): '' (eastings_offset_cm cfg f),
      Fmt ''Northings world origin to texture start (cm): '' (northings_offset_cm cfg f),
      Fmt ''Texture width (cm): '' (texture_width_cm f),
      Fmt ''Text height (cm): '' (texture_height_cm f)]"

subsection \<open>The whole notebook\<close>

record run =
  printed :: "out_line list"
  written :: "saved list"
  raised :: "py_error option"

definition notebook :: "lib \<Rightarrow> config \<Rightarrow> run" where
  "notebook L cfg =
     (case cell2 L cfg of
        Inl e \<Rightarrow> \<lparr>printed = [], written = [], raised = Some e\<rparr>
      | Inr (gdf, out) \<Rightarrow>
          (case cell4 L cfg gdf of
             Raised e s \<Rightarrow> \<lparr>printed = out, written = files s, raised = Some e\<rparr>
           | Done s \<Rightarrow>
               \<lparr>printed = out @ cell5 cfg (fig s), written = files s, raised = None\<rparr>))"

subsection \<open>A sample run\<close>

text \<open>
  Concrete library results for evaluating the model: a dataset in EPSG:4326 with two
  features, a plot with the legend entries A and C, a legend box of 200 by 300 pixels,
  and saves that succeed.
\<close>

definition sample_gdf :: geodataframe where
  "sample_gdf = \<lparr>crs = Some ''EPSG:4326'',
                 features = [[(''Super'', ''A'')], [(''Super'', ''C'')]]\<rparr>"

definition sample_lib :: lib where
  "sample_lib =
     \<lparr>read_file = (\<lambda>p. Inr sample_gdf),
      rc_figure_dpi = 100,
      gdf_plot = (\<lambda>g c f. Inr \<lparr>plot_legend = Some [''A'', ''C''],
                               plot_xlim = (500000, 560000), plot_ylim = (160000, 200000)\<rparr>),
      get_window_extent = (\<lambda>f. (1500, 600, 1700, 900)),
      axis_scaled = (\<lambda>f. (get_xlim f, get_ylim f)),
      savefig_error = (\<lambda>p d bb f. None)\<rparr>"

definition sample_figure :: figure where
  "sample_figure =
     (new_figure sample_lib (12.8, 9.6))
       \<lparr>get_legend := Some [''A'', ''C''], get_xlim := (500000, 560000),
        get_ylim := (160000, 200000)\<rparr>"


section \<open>Properties\<close>

subsection \<open>The geo-registration report\<close>

text \<open>
  Claim C1. For every final plot extent \<open>(xmin, xmax, ymin, ymax)\<close> and every world origin
  \<open>(ox, oy)\<close>, the reporting cell prints the eastings offset \<open>-100 * (ox - xmin)\<close>, the
  northings offset \<open>100 * (oy - ymin)\<close>, the texture width \<open>100 * (xmax - xmin)\<close> and
  the texture height \<open>100 * (ymax - ymin)\<close>. The eastings offset is the negation of
  \<open>100 * (ox - xmin)\<close>, the northings offset is not negated; with origin
  \<open>(532816, 180759)\<close>, \<open>xmin = 500000\<close> and \<open>ymin = 160000\<close> the two offsets are
  \<open>-3281600\<close> and \<open>2075900\<close>.
\<close>

theorem geo_registration_report:
  fixes cfg :: config and f :: figure and ox oy xmin xmax ymin ymax :: real
  defines "c \<equiv> cfg\<lparr>ue_world_origin_bng_eastings := ox, ue_world_origin_bng_northings := oy\<rparr>"
    and "g \<equiv> f\<lparr>get_xlim := (xmin, xmax), get_ylim := (ymin, ymax)\<rparr>"
  shows "drop 3 (cell5 c g) =
           [Fmt ''Eastings world origin to texture start (cm): '' (- 100 * (ox - xmin)),
            Fmt ''Northings world origin to texture start (cm): '' (100 * (oy - ymin)),
            Fmt ''Texture width (cm): '' (100 * (xmax - xmin)),
            Fmt ''Text height (cm): '' (100 * (ymax - ymin))]
         \<and> eastings_offset_cm c g = - (100 * (ox - xmin))
         \<and> northings_offset_cm c g = 100 * (oy - ymin)
         \<and> eastings_offset_cm notebook_config (f\<lparr>get_xlim := (500000, xmax)\<rparr>) = - 3281600
         \<and> northings_offset_cm notebook_config (f\<lparr>get_ylim := (160000, ymax)\<rparr>) = 2075900"
  by (simp add: c_def g_def cell5_def eastings_offset_cm_def northings_offset_cm_def
      texture_width_cm_def texture_height_cm_def notebook_config_def)

text \<open>
  Claim C4. When the final limits are ordered, \<open>xmin \<le> xmax\<close> and \<open>ymin \<le> ymax\<close>, the
  printed texture width \<open>100 * (xmax - xmin)\<close> and texture height \<open>100 * (ymax - ymin)\<close>
  are both non-negative, whatever the world origin is.
\<close>

theorem texture_size_nonneg:
  assumes "fst (get_xlim f) \<le> snd (get_xlim f)" and "fst (get_ylim f) \<le> snd (get_ylim f)"
  shows "drop 5 (cell5 cfg f) =
           [Fmt ''Texture width (cm): '' (texture_width_cm f),
            Fmt ''Text height (cm): '' (texture_height_cm f)]
         \<and> texture_width_cm f = 100 * (snd (get_xlim f) - fst (get_xlim f))
         \<and> texture_height_cm f = 100 * (snd (get_ylim f) - fst (get_ylim f))
         \<and> 0 \<le> texture_width_cm f \<and> 0 \<le> texture_height_cm f"
  using assms by (simp add: cell5_def texture_width_cm_def texture_height_cm_def)

theorem texture_size_nonneg_witness:
  "texture_width_cm (sample_figure) = 6000000
   \<and> texture_height_cm (sample_figure) = 4000000
   \<and> 0 \<le> texture_width_cm (sample_figure)
   \<and> 0 \<le> texture_height_cm (sample_figure)"
  using texture_size_nonneg [of sample_figure]
  by (simp add: sample_figure_def texture_width_cm_def texture_height_cm_def)

subsection \<open>Relabelling the legend\<close>

text \<open>
  When every label has an entry in the dictionary, the loop replaces each label by its
  entry; otherwise it stops at a label without one.
\<close>

lemma set_texts_ok:
  "set ts \<subseteq> dom d \<Longrightarrow> set_texts d ts = (None, map (\<lambda>t. the (d t)) ts)"
  by (induction ts) (auto split: option.splits)

lemma set_texts_missing:
  "t \<in> set ts \<Longrightarrow> d t = None \<Longrightarrow>
   \<exists>k ts'. set_texts d ts = (Some (KeyError k), ts') \<and> k \<in> set ts \<and> d k = None"
proof (induction ts)
  case Nil
  then show ?case by simp
next
  case (Cons a ts)
  show ?case
  proof (cases "d a")
    case None
    then show ?thesis by auto
  next
    case (Some v)
    with Cons.prems have "t \<in> set ts" by auto
    with Cons.IH Cons.prems(2) obtain k ts'
      where "set_texts d ts = (Some (KeyError k), ts')" "k \<in> set ts" "d k = None"
      by blast
    with Some show ?thesis by auto
  qed
qed

text \<open>
  Claim C2. \<^verbatim>\<open>export_legend\<close> looks up the replacement of every label shown in the
  legend. When some label of the legend has no entry in the dictionary, the call raises
  \<^verbatim>\<open>KeyError\<close> (the lookup error) for a label of the legend that has no entry, and no
  file is written: the error is not skipped, the export is abandoned.
\<close>

theorem export_legend_missing_label:
  assumes "get_legend (fig s) = Some ts" and "t \<in> set ts" and "d t = None"
  shows "\<exists>k s'. export_legend L filename (Some d) expand s = Raised (KeyError k) s'
           \<and> k \<in> set ts \<and> d k = None \<and> files s' = files s"
proof -
  from set_texts_missing [of t ts d] assms(2,3) obtain k ts'
    where st: "set_texts d ts = (Some (KeyError k), ts')" and k: "k \<in> set ts" "d k = None"
    by blast
  show ?thesis
    using assms(1) st k by (simp add: export_legend_def Let_def)
qed

theorem export_legend_missing_label_witness:
  "\<exists>k s'. export_legend sample_lib ''legend.png''
             (Some ((legend_label_lookup notebook_config)(''C'' := None))) expand_default
             \<lparr>fig = sample_figure, files = []\<rparr> = Raised (KeyError k) s'
           \<and> k \<in> set [''A'', ''C'']
           \<and> ((legend_label_lookup notebook_config)(''C'' := None)) k = None
           \<and> files s' = []"
proof -
  have h1: "get_legend (fig \<lparr>fig = sample_figure, files = []\<rparr>) = Some [''A'', ''C'']"
    by (simp add: sample_figure_def)
  have h2: "''C'' \<in> set [''A'', ''C'']"
    by simp
  have h3: "((legend_label_lookup notebook_config)(''C'' := None)) ''C'' = None"
    by simp
  from export_legend_missing_label
    [where s = "\<lparr>fig = sample_figure, files = []\<rparr>" and ts = "[''A'', ''C'']" and t = "''C''"
       and d = "(legend_label_lookup notebook_config)(''C'' := None)" and L = sample_lib
       and filename = "''legend.png''" and expand = expand_default, OF h1 h2 h3]
  show ?thesis by simp
qed

subsection \<open>The crop rectangle of the legend\<close>

lemma add_expand_four:
  "add_expand e [a, b, c, d] =
     Inr (fst e + a, fst (snd e) + b, fst (snd (snd e)) + c, snd (snd (snd e)) + d)"
  by (cases e) simp

lemma export_legend_Some:
  assumes "get_legend (fig s) = Some ts" and "set ts \<subseteq> dom d"
  shows "export_legend L filename (Some d) expand s =
           (let s' = s\<lparr>fig := (canvas_draw (fig s))
                              \<lparr>get_legend := Some (map (\<lambda>t. the (d t)) ts)\<rparr>\<rparr>
            in case add_expand (get_window_extent L (fig s')) expand of
                 Inl e \<Rightarrow> Raised e s'
               | Inr bbox \<Rightarrow>
                   savefig L filename 600 (Bbox (dpi_scale_inverted (fig s') bbox)) s')"
  using assms by (simp add: export_legend_def set_texts_ok Let_def)

lemma export_legend_None:
  assumes "get_legend (fig s) = Some ts"
  shows "export_legend L filename None expand s =
           (let s' = s\<lparr>fig := (canvas_draw (fig s))\<lparr>get_legend := Some ts\<rparr>\<rparr>
            in case add_expand (get_window_extent L (fig s')) expand of
                 Inl e \<Rightarrow> Raised e s'
               | Inr bbox \<Rightarrow>
                   savefig L filename 600 (Bbox (dpi_scale_inverted (fig s') bbox)) s')"
  using assms by (simp add: export_legend_def Let_def)

lemma export_legend_save_error:
  assumes "get_legend (fig s) = Some ts"
    and "legend_label_dict = None \<and> ts' = ts
         \<or> (\<exists>d. legend_label_dict = Some d \<and> set ts \<subseteq> dom d
                \<and> ts' = map (\<lambda>t. the (d t)) ts)"
    and "f' = (canvas_draw (fig s))\<lparr>get_legend := Some ts'\<rparr>"
    and "add_expand (get_window_extent L f') expand = Inr b"
    and "savefig_error L filename 600 (Bbox (dpi_scale_inverted f' b)) f' = Some e"
  shows "export_legend L filename legend_label_dict expand s
           = Raised e \<lparr>fig = f', files = files s\<rparr>"
  using assms
  by (auto simp: export_legend_Some export_legend_None Let_def savefig_def)

text \<open>
  Claim C7. Let \<open>(x0, y0, x1, y1)\<close> be the legend's bounding box in canvas pixels, read
  once the labels are replaced. With a margin of \<open>m\<close> pixels on each of the four sides
  (\<open>expand = [-m, -m, m, m]\<close>; the default is \<open>m = 5\<close>), \<^verbatim>\<open>export_legend\<close> writes exactly
  one file, and its region is the box \<open>(x0 - m, y0 - m, x1 + m, y1 + m)\<close> divided by the
  figure's resolution, that is, in inches. The resolution of the figure is positive, and
  the save of that file with that region is taken to succeed; a save that raises writes
  nothing (lemma \<open>export_legend_save_error\<close>).
\<close>

theorem export_legend_crop:
  assumes "get_legend (fig s) = Some ts"
    and "legend_label_dict = None \<and> ts' = ts
         \<or> (\<exists>d. legend_label_dict = Some d \<and> set ts \<subseteq> dom d
                \<and> ts' = map (\<lambda>t. the (d t)) ts)"
    and "0 < fig_dpi (fig s)"
    and "f' = (canvas_draw (fig s))\<lparr>get_legend := Some ts'\<rparr>"
    and "get_window_extent L f' = (x0, y0, x1, y1)"
    and "savefig_error L filename 600
           (Bbox ((x0 - m) / fig_dpi (fig s), (y0 - m) / fig_dpi (fig s),
                  (x1 + m) / fig_dpi (fig s), (y1 + m) / fig_dpi (fig s))) f' = None"
  shows "export_legend L filename legend_label_dict [- m, - m, m, m] s =
           Done \<lparr>fig = f',
                 files = files s @
                   [\<lparr>path = filename, save_dpi = 600,
                     region = Bbox ((x0 - m) / fig_dpi (fig s), (y0 - m) / fig_dpi (fig s),
                                    (x1 + m) / fig_dpi (fig s), (y1 + m) / fig_dpi (fig s)),
                     shown = f'\<rparr>]\<rparr>
         \<and> expand_default = [- 5, - 5, 5, 5]"
proof -
  from assms(2) show ?thesis
  proof
    assume "legend_label_dict = None \<and> ts' = ts"
    then show ?thesis
      using assms(1,4,5,6)
      by (simp add: export_legend_None Let_def savefig_def dpi_scale_inverted_def
          canvas_draw_def expand_default_def)
  next
    assume "\<exists>d. legend_label_dict = Some d \<and> set ts \<subseteq> dom d
              \<and> ts' = map (\<lambda>t. the (d t)) ts"
    then obtain d where "legend_label_dict = Some d" "set ts \<subseteq> dom d"
      "ts' = map (\<lambda>t. the (d t)) ts"
      by blast
    then show ?thesis
      using assms(1,4,5,6)
      by (simp add: export_legend_Some Let_def savefig_def dpi_scale_inverted_def
          canvas_draw_def expand_default_def)
  qed
qed

theorem export_legend_crop_witness:
  "export_legend sample_lib ''legend.png'' (Some (legend_label_lookup notebook_config))
     [- 5, - 5, 5, 5] \<lparr>fig = sample_figure, files = []\<rparr> =
   Done \<lparr>fig = (canvas_draw sample_figure)
                  \<lparr>get_legend := Some [''Intermediate Lifestyles'', ''Settled Asians'']\<rparr>,
         files = [\<lparr>path = ''legend.png'', save_dpi = 600,
                   region = Bbox (1495 / 100, 595 / 100, 1705 / 100, 905 / 100),
                   shown = (canvas_draw sample_figure)
                     \<lparr>get_legend := Some [''Intermediate Lifestyles'', ''Settled Asians'']\<rparr>\<rparr>]\<rparr>"
proof -
  have h1: "get_legend (fig \<lparr>fig = sample_figure, files = []\<rparr>) = Some [''A'', ''C'']"
    by (simp add: sample_figure_def)
  have h2: "Some (legend_label_lookup notebook_config) = None
              \<and> [''Intermediate Lifestyles'', ''Settled Asians''] = [''A'', ''C'']
            \<or> (\<exists>d. Some (legend_label_lookup notebook_config) = Some d
                  \<and> set [''A'', ''C''] \<subseteq> dom d
                  \<and> [''Intermediate Lifestyles'', ''Settled Asians'']
                      = map (\<lambda>t. the (d t)) [''A'', ''C''])"
    by (simp add: notebook_config_def)
  have h3: "0 < fig_dpi (fig \<lparr>fig = sample_figure, files = []\<rparr>)"
    by (simp add: sample_figure_def new_figure_def sample_lib_def)
  have h4: "(canvas_draw sample_figure)
              \<lparr>get_legend := Some [''Intermediate Lifestyles'', ''Settled Asians'']\<rparr>
            = (canvas_draw (fig \<lparr>fig = sample_figure, files = []\<rparr>))
              \<lparr>get_legend := Some [''Intermediate Lifestyles'', ''Settled Asians'']\<rparr>"
    by simp
  have h5: "get_window_extent sample_lib
              ((canvas_draw sample_figure)
                 \<lparr>get_legend := Some [''Intermediate Lifestyles'', ''Settled Asians'']\<rparr>)
            = (1500, 600, 1700, 900)"
    by (simp add: sample_lib_def)
  have h6: "savefig_error sample_lib ''legend.png'' 600
              (Bbox ((1500 - 5) / fig_dpi (fig \<lparr>fig = sample_figure, files = []\<rparr>),
                     (600 - 5) / fig_dpi (fig \<lparr>fig = sample_figure, files = []\<rparr>),
                     (1700 + 5) / fig_dpi (fig \<lparr>fig = sample_figure, files = []\<rparr>),
                     (900 + 5) / fig_dpi (fig \<lparr>fig = sample_figure, files = []\<rparr>)))
              ((canvas_draw sample_figure)
                 \<lparr>get_legend := Some [''Intermediate Lifestyles'', ''Settled Asians'']\<rparr>)
            = None"
    by (simp add: sample_lib_def)
  from export_legend_crop [OF h1 h2 h3 h4 h5 h6]
  show ?thesis
    by (simp add: sample_figure_def new_figure_def sample_lib_def expand_default_def)
qed

subsection \<open>The CRS check\<close>



subsection \<open>The resolution of the saved files\<close>

lemma export_legend_files:
  "export_legend L filename legend_label_dict expand s = Done s' \<Longrightarrow>
   \<exists>x. files s' = files s @ [x] \<and> path x = filename \<and> save_dpi x = 600"
  by (auto simp: export_legend_def savefig_def Let_def
      split: option.splits prod.splits sum.splits)

lemma savefig_Done_files:
  "savefig L fname d bb s = Done s' \<Longrightarrow>
   \<exists>x. files s' = files s @ [x] \<and> path x = fname \<and> save_dpi x = d"
  by (auto simp: savefig_def split: option.splits)

lemma cell4_Done_files:
  assumes "cell4 L cfg gdf = Done s"
  shows "map path (files s) = [legend_filename cfg, texture_filename cfg]
         \<and> map save_dpi (files s) = [600, dpi cfg]"
proof -
  from assms obtain s0 s1 where
    e: "export_legend L (legend_filename cfg) (Some (legend_label_lookup cfg)) expand_default s0
          = Done s1" and
    s0: "files s0 = []" and
    s: "savefig L (texture_filename cfg) (dpi cfg) (Tight 0)
          (s1\<lparr>fig := strip_axes L (fig s1)\<rparr>) = Done s"
    by (auto simp: cell4_def Let_def split: sum.splits outcome.splits)
  from export_legend_files [OF e] s0 obtain x where
    x: "files s1 = [x]" "path x = legend_filename cfg" "save_dpi x = 600"
    by auto
  from savefig_Done_files [OF s] obtain y where
    "files s = files s1 @ [y]" "path y = texture_filename cfg" "save_dpi y = dpi cfg"
    by auto
  with x show ?thesis
    by simp
qed

text \<open>
  Claim C8, amended. The legend file is not saved at the configured \<open>dpi\<close>:
  \<^verbatim>\<open>export_legend\<close> passes the constant 600 to \<^verbatim>\<open>savefig\<close>. Whenever the notebook runs
  to the end, it has written the legend file at 600 dots per inch and the texture file at
  the configured \<open>dpi\<close>.
\<close>

theorem legend_saved_at_600_dpi:
  assumes "raised (notebook L cfg) = None"
  shows "map path (written (notebook L cfg)) = [legend_filename cfg, texture_filename cfg]
         \<and> map save_dpi (written (notebook L cfg)) = [600, dpi cfg]"
proof -
  from assms obtain gdf s where "cell4 L cfg gdf = Done s"
    and "written (notebook L cfg) = files s"
    by (auto simp: notebook_def split: sum.splits outcome.splits)
  then show ?thesis
    using cell4_Done_files by simp
qed

theorem legend_saved_at_600_dpi_witness:
  "map path (written (notebook sample_lib (notebook_config\<lparr>dpi := 300\<rparr>)))
     = [''images/FourLADs_LOAC_legend.png'', ''images/FourLADs_LOAC_texture.png'']
   \<and> map save_dpi (written (notebook sample_lib (notebook_config\<lparr>dpi := 300\<rparr>))) = [600, 300]"
proof -
  have h: "raised (notebook sample_lib (notebook_config\<lparr>dpi := 300\<rparr>)) = None"
    by (simp add: notebook_def cell2_def cell4_def export_legend_def Let_def savefig_def
        sample_lib_def sample_gdf_def notebook_config_def new_figure_def expand_default_def
        canvas_draw_def)
  from legend_saved_at_600_dpi [OF h]
  show ?thesis
    by (simp add: notebook_config_def)
qed

text \<open>With \<open>dpi\<close> set to 300 the legend file is still saved at 600 dots per inch.\<close>

theorem legend_dpi_not_configured:
  "raised (notebook sample_lib (notebook_config\<lparr>dpi := 300\<rparr>)) = None
   \<and> path (hd (written (notebook sample_lib (notebook_config\<lparr>dpi := 300\<rparr>))))
       = legend_filename (notebook_config\<lparr>dpi := 300\<rparr>)
   \<and> save_dpi (hd (written (notebook sample_lib (notebook_config\<lparr>dpi := 300\<rparr>)))) = 600
   \<and> save_dpi (hd (written (notebook sample_lib (notebook_config\<lparr>dpi := 300\<rparr>))))
       \<noteq> dpi (notebook_config\<lparr>dpi := 300\<rparr>)"
  by (simp add: notebook_def cell2_def cell4_def export_legend_def Let_def savefig_def
      sample_lib_def sample_gdf_def notebook_config_def new_figure_def expand_default_def
      canvas_draw_def)

subsection \<open>Failures before the first save\<close>

text \<open>
  Nothing in the notebook catches an exception. An error raised by \<^verbatim>\<open>gdf.plot\<close>, or a
  label without an entry in the dictionary, ends the run before any file is written; so
  does a failing save of the legend file.
\<close>

lemma plot_error_writes_nothing:
  assumes "read_file L (data_path cfg) = Inr gdf"
    and "gdf_plot L gdf (column_to_plot cfg)
           (new_figure L (width_inches cfg, height_inches cfg)) = Inl e"
  shows "raised (notebook L cfg) = Some e \<and> written (notebook L cfg) = []"
  using assms by (simp add: notebook_def cell2_def cell4_def Let_def)

lemma missing_label_writes_nothing:
  assumes "read_file L (data_path cfg) = Inr gdf"
    and "gdf_plot L gdf (column_to_plot cfg)
           (new_figure L (width_inches cfg, height_inches cfg)) = Inr p"
    and "plot_legend p = Some ts"
    and "t \<in> set ts" and "legend_label_lookup cfg t = None"
  shows "\<exists>k. raised (notebook L cfg) = Some (KeyError k) \<and> written (notebook L cfg) = []"
proof -
  from set_texts_missing [of t ts "legend_label_lookup cfg"] assms(4,5) obtain k ts'
    where "set_texts (legend_label_lookup cfg) ts = (Some (KeyError k), ts')"
    by blast
  with assms(1,2,3) show ?thesis
    by (simp add: notebook_def cell2_def cell4_def export_legend_def Let_def)
qed

lemma legend_save_error_writes_nothing:
  assumes "read_file L (data_path cfg) = Inr gdf"
    and "gdf_plot L gdf (column_to_plot cfg)
           (new_figure L (width_inches cfg, height_inches cfg)) = Inr p"
    and "plot_legend p = Some ts"
    and "set ts \<subseteq> dom (legend_label_lookup cfg)"
    and "\<forall>d bb f. savefig_error L (legend_filename cfg) d bb f = Some e"
  shows "raised (notebook L cfg) = Some e \<and> written (notebook L cfg) = []"
  using assms
  by (simp add: notebook_def cell2_def cell4_def export_legend_Some Let_def expand_default_def
      add_expand_four savefig_def)

end
